theory Spec2Isabelle
  imports Complex_Main "HOL-Library.Char_ord" "HOL-Library.List_Lexorder"
begin

section \<open>Cloud cover from GOES scans: the workers and the request handler\<close>

text \<open>
  The development follows the three source files: \<^verbatim>\<open>workers/processing.py\<close> (day/night
  decision and the two threshold classifiers), \<^verbatim>\<open>workers/ingestion.py\<close> (discovery of the
  newest archive object and its download) and \<^verbatim>\<open>backend/main.py\<close> (the request handler that
  chains them and removes the downloaded file).
\<close>

subsection \<open>Floating-point pixels and Python exceptions\<close>

text \<open>
  A pixel is an IEEE value: not-a-number, an infinity, or a finite number. Finite numbers
  are kept as reals, so the rounding of binary64 arithmetic is not part of the model; the
  ordering, the treatment of NaN and the counting are.
\<close>

datatype pyfloat = NaN | NegInf | Fin real | PosInf

text \<open>The comparison \<^verbatim>\<open>x < y\<close> of numpy: false as soon as one side is NaN.\<close>

fun flt :: "pyfloat \<Rightarrow> pyfloat \<Rightarrow> bool" where
  "flt NaN _ = False"
| "flt _ NaN = False"
| "flt NegInf NegInf = False"
| "flt NegInf _ = True"
| "flt (Fin a) (Fin b) = (a < b)"
| "flt (Fin a) PosInf = True"
| "flt (Fin a) NegInf = False"
| "flt PosInf _ = False"

text \<open>\<^verbatim>\<open>x > y\<close> is \<^verbatim>\<open>y < x\<close>.\<close>

definition fgt :: "pyfloat \<Rightarrow> pyfloat \<Rightarrow> bool" where
  "fgt x y = flt y x"

fun isnan :: "pyfloat \<Rightarrow> bool" where
  "isnan NaN = True"
| "isnan _ = False"

text \<open>The exceptions the modelled code can raise or let through.\<close>

datatype error =
    KeyError string
  | ValueError
  | IndexError
  | FileNotFoundError string
  | OSError string

subsection \<open>The scan\<close>

text \<open>
  A band is held as the list of its pixels in row-major order: every operation the
  classifiers use is pixelwise or a count. The dataset maps band names to bands and
  attribute names to strings, as \<^verbatim>\<open>ds[name]\<close>, \<^verbatim>\<open>name in ds\<close> and \<^verbatim>\<open>ds.attrs\<close> do.
\<close>

type_synonym ndarray = "pyfloat list"

record dataset =
  data_vars :: "string \<rightharpoonup> ndarray"
  attrs :: "string \<rightharpoonup> string"

text \<open>\<^verbatim>\<open>np.sum\<close> of a boolean array counts the true entries.\<close>

definition np_sum :: "bool list \<Rightarrow> nat" where
  "np_sum m = length (filter (\<lambda>b. b) m)"

text \<open>
  \<^verbatim>\<open>np.logical_or(a, b)\<close> on arrays of one shape is pixelwise; the model answers
  \<^verbatim>\<open>ValueError\<close> when the pixel counts differ (numpy raises it for shapes it cannot
  broadcast; broadcasting itself is not modelled, the bands of one product share a grid).
\<close>

definition logical_or :: "bool list \<Rightarrow> bool list \<Rightarrow> error + bool list" where
  "logical_or a b =
     (if length a = length b then Inr (map (\<lambda>(x, y). x \<or> y) (zip a b)) else Inl ValueError)"

text \<open>\<^verbatim>\<open>np.logical_or.reduce\<close> over a non-empty list of masks, first mask first.\<close>

fun logical_or_reduce :: "bool list \<Rightarrow> bool list list \<Rightarrow> error + bool list" where
  "logical_or_reduce acc [] = Inr acc"
| "logical_or_reduce acc (m # ms) =
     (case logical_or acc m of Inl e \<Rightarrow> Inl e | Inr a \<Rightarrow> logical_or_reduce a ms)"

subsection \<open>processing.py: the classifiers\<close>

text \<open>
  \<^verbatim>\<open>calc_cloud_fraction_ir(ds, band, threshold)\<close>: the lookup \<^verbatim>\<open>ds[band]\<close> raises
  \<^verbatim>\<open>KeyError\<close> for an absent band; otherwise the result is the percentage, or NaN when no
  pixel is valid.
\<close>

definition percentage :: "nat \<Rightarrow> nat \<Rightarrow> pyfloat" where
  "percentage cloud_pixels total_pixels =
     (if total_pixels > 0 then Fin (real cloud_pixels / real total_pixels * 100) else NaN)"

definition calc_cloud_fraction_ir :: "dataset \<Rightarrow> string \<Rightarrow> pyfloat \<Rightarrow> error + pyfloat" where
  "calc_cloud_fraction_ir ds band threshold =
     (case data_vars ds band of
        None \<Rightarrow> Inl (KeyError band)
      | Some data \<Rightarrow>
          (let mask = map (\<lambda>x. flt x threshold) data;
               cloud_pixels = np_sum mask;
               total_pixels = np_sum (map (\<lambda>x. \<not> isnan x) data)
           in Inr (percentage cloud_pixels total_pixels)))"

text \<open>
  The loop of \<^verbatim>\<open>calc_cloud_fraction_multiband\<close> over the configured visible bands: a band
  that is in the scan contributes its mask, an absent one is skipped.
\<close>

fun vis_masks_of :: "dataset \<Rightarrow> string list \<Rightarrow> pyfloat \<Rightarrow> bool list list" where
  "vis_masks_of ds [] vis_threshold = []"
| "vis_masks_of ds (vb # vbs) vis_threshold =
     (case data_vars ds vb of
        Some vis_data \<Rightarrow> map (\<lambda>x. fgt x vis_threshold) vis_data # vis_masks_of ds vbs vis_threshold
      | None \<Rightarrow> vis_masks_of ds vbs vis_threshold)"

text \<open>The combined mask (the local \<^verbatim>\<open>combined\<close>) for a given IR band.\<close>

definition combined_mask ::
  "dataset \<Rightarrow> ndarray \<Rightarrow> string list \<Rightarrow> pyfloat \<Rightarrow> pyfloat \<Rightarrow> error + bool list" where
  "combined_mask ds ir_data vis_bands ir_threshold vis_threshold =
     (let ir_mask = map (\<lambda>x. flt x ir_threshold) ir_data in
      case (case vis_masks_of ds vis_bands vis_threshold of
              [] \<Rightarrow> Inr (replicate (length ir_mask) False)
            | m # ms \<Rightarrow> logical_or_reduce m ms) of
        Inl e \<Rightarrow> Inl e
      | Inr vis_mask \<Rightarrow> logical_or ir_mask vis_mask)"

definition calc_cloud_fraction_multiband ::
  "dataset \<Rightarrow> string \<Rightarrow> string list \<Rightarrow> pyfloat \<Rightarrow> pyfloat \<Rightarrow> error + pyfloat" where
  "calc_cloud_fraction_multiband ds ir_band vis_bands ir_threshold vis_threshold =
     (case data_vars ds ir_band of
        None \<Rightarrow> Inl (KeyError ir_band)
      | Some ir_data \<Rightarrow>
          (case combined_mask ds ir_data vis_bands ir_threshold vis_threshold of
             Inl e \<Rightarrow> Inl e
           | Inr combined \<Rightarrow>
               (let total_pixels = np_sum (map (\<lambda>x. \<not> isnan x) ir_data);
                    cloud_pixels = np_sum combined
                in Inr (percentage cloud_pixels total_pixels))))"

subsection \<open>Timestamps\<close>

text \<open>
  What \<^verbatim>\<open>datetime\<close> keeps of an instant: the calendar fields as written, and the offset
  from UTC in minutes when the timestamp carries one (\<open>None\<close> for a naive timestamp).
\<close>

record datetime =
  year :: nat
  month :: nat
  day :: nat
  hour :: nat
  minute :: nat
  second :: nat
  microsecond :: nat
  utcoffset :: "int option"

text \<open>
  \<^verbatim>\<open>s.replace("Z", "+00:00")\<close>: the pattern is one character long, so every occurrence of
  that character is replaced, wherever it stands.
\<close>

definition replace_char :: "char \<Rightarrow> string \<Rightarrow> string \<Rightarrow> string" where
  "replace_char old new s = concat (map (\<lambda>c. if c = old then new else [c]) s)"

definition is_digit :: "char \<Rightarrow> bool" where
  "is_digit c = (48 \<le> (of_char c :: nat) \<and> (of_char c :: nat) \<le> 57)"

definition digits_val :: "string \<Rightarrow> nat option" where
  "digits_val s =
     (if s \<noteq> [] \<and> list_all is_digit s
      then Some (foldl (\<lambda>n c. 10 * n + ((of_char c :: nat) - 48)) 0 s)
      else None)"

definition check :: "bool \<Rightarrow> unit option" where
  "check b = (if b then Some () else None)"

definition is_leap :: "nat \<Rightarrow> bool" where
  "is_leap y = (y mod 4 = 0 \<and> (y mod 100 \<noteq> 0 \<or> y mod 400 = 0))"

definition days_in_month :: "nat \<Rightarrow> nat \<Rightarrow> nat" where
  "days_in_month y m =
     (if m = 2 then (if is_leap y then 29 else 28)
      else if m = 4 \<or> m = 6 \<or> m = 9 \<or> m = 11 then 30 else 31)"

text \<open>The fraction of a second: a dot and digits, of which the first six count.\<close>

definition parse_fraction :: "string \<Rightarrow> (nat \<times> string) option" where
  "parse_fraction r =
     (case r of
        [] \<Rightarrow> Some (0, [])
      | c # cs \<Rightarrow>
          if c = CHR ''.'' then
            (let ds = takeWhile is_digit cs in
             case digits_val (take 6 (ds @ ''000000'')) of
               None \<Rightarrow> None
             | Some us \<Rightarrow> if ds = [] then None else Some (us, dropWhile is_digit cs))
          else Some (0, r))"

text \<open>The offset: nothing, or a sign, two digits, a colon and two digits.\<close>

definition parse_offset :: "string \<Rightarrow> int option option" where
  "parse_offset r =
     (if r = [] then Some None
      else if length r = 6 \<and> (hd r = CHR ''+'' \<or> hd r = CHR ''-'') \<and> r ! 3 = CHR '':'' then
        (case (digits_val (take 2 (drop 1 r)), digits_val (drop 4 r)) of
           (Some oh, Some om) \<Rightarrow>
             if oh < 24 \<and> om < 60
             then Some (Some ((if hd r = CHR ''-'' then -1 else 1) * int (oh * 60 + om)))
             else None
         | _ \<Rightarrow> None)
      else None)"

text \<open>
  \<^verbatim>\<open>datetime.fromisoformat\<close> is library code. The model below covers the extended format
  \<^verbatim>\<open>YYYY-MM-DD\<close>, one separator character, \<^verbatim>\<open>HH:MM:SS\<close>, an optional fraction (of any
  length, as interpreters from 3.11 on read it) and an optional offset \<^verbatim>\<open>+HH:MM\<close> or
  \<^verbatim>\<open>-HH:MM\<close>, with the library's range checks; a string outside this format is answered
  with \<^verbatim>\<open>ValueError\<close>, although recent interpreters accept further ISO 8601 forms. The
  functions of \<^verbatim>\<open>processing.py\<close> therefore take the parser as a parameter, and this model
  is used where a concrete timestamp is evaluated.
\<close>

definition parse_iso :: "string \<Rightarrow> datetime option" where
  "parse_iso s =
     Option.bind (check (19 \<le> length s \<and> s ! 4 = CHR ''-'' \<and> s ! 7 = CHR ''-''
                         \<and> s ! 13 = CHR '':'' \<and> s ! 16 = CHR '':'')) (\<lambda>_.
     Option.bind (digits_val (take 4 s)) (\<lambda>y.
     Option.bind (digits_val (take 2 (drop 5 s))) (\<lambda>mo.
     Option.bind (digits_val (take 2 (drop 8 s))) (\<lambda>d.
     Option.bind (digits_val (take 2 (drop 11 s))) (\<lambda>h.
     Option.bind (digits_val (take 2 (drop 14 s))) (\<lambda>mi.
     Option.bind (digits_val (take 2 (drop 17 s))) (\<lambda>sec.
     Option.bind (parse_fraction (drop 19 s)) (\<lambda>(us, rest).
     Option.bind (parse_offset rest) (\<lambda>off.
     Option.bind (check (1 \<le> y \<and> 1 \<le> mo \<and> mo \<le> 12 \<and> 1 \<le> d \<and> d \<le> days_in_month y mo
                         \<and> h < 24 \<and> mi < 60 \<and> sec < 60)) (\<lambda>_.
     Some \<lparr>year = y, month = mo, day = d, hour = h, minute = mi, second = sec,
           microsecond = us, utcoffset = off\<rparr>))))))))))"

definition fromisoformat :: "string \<Rightarrow> error + datetime" where
  "fromisoformat s = (case parse_iso s of None \<Rightarrow> Inl ValueError | Some dt \<Rightarrow> Inr dt)"

text \<open>
  The hour of the instant in UTC: the wall-clock time less the offset, a naive timestamp
  read as UTC. The code never computes it; it is what the day/night rule is documented
  to test.
\<close>

definition utc_hour :: "datetime \<Rightarrow> nat" where
  "utc_hour dt =
     nat (((int (hour dt) * 60 + int (minute dt)
            - (case utcoffset dt of None \<Rightarrow> 0 | Some off \<Rightarrow> off)) div 60) mod 24)"

subsection \<open>processing.py: day or night, and the dispatch\<close>

text \<open>
  \<^verbatim>\<open>is_daytime(ds)\<close>: without the attribute the answer is \<open>True\<close>; with it, the string is
  normalised and parsed (a parse error propagates) and the \<^verbatim>\<open>hour\<close> field of the result
  is tested.
\<close>

definition is_daytime :: "(string \<Rightarrow> error + datetime) \<Rightarrow> dataset \<Rightarrow> error + bool" where
  "is_daytime parse ds =
     (case attrs ds ''time_coverage_start'' of
        None \<Rightarrow> Inr True
      | Some t \<Rightarrow>
          (case parse (replace_char CHR ''Z'' ''+00:00'' t) of
             Inl e \<Rightarrow> Inl e
           | Inr scan_start \<Rightarrow> Inr (6 \<le> hour scan_start \<and> hour scan_start \<le> 18)))"

text \<open>The default arguments of the two classifiers.\<close>

definition default_ir_band :: string where
  "default_ir_band = ''CMI_C13''"

definition default_vis_bands :: "string list" where
  "default_vis_bands = [''CMI_C02'', ''CMI_C03'']"

definition default_ir_threshold :: pyfloat where
  "default_ir_threshold = Fin 280"

definition default_vis_threshold :: pyfloat where
  "default_vis_threshold = Fin (3 / 10)"

definition calc_cloud_fraction :: "(string \<Rightarrow> error + datetime) \<Rightarrow> dataset \<Rightarrow> error + pyfloat" where
  "calc_cloud_fraction parse ds =
     (case is_daytime parse ds of
        Inl e \<Rightarrow> Inl e
      | Inr daytime \<Rightarrow>
          if daytime
          then calc_cloud_fraction_multiband ds default_ir_band default_vis_bands
                 default_ir_threshold default_vis_threshold
          else calc_cloud_fraction_ir ds default_ir_band default_ir_threshold)"

subsection \<open>ingestion.py: the newest object of the current hour\<close>

text \<open>Decimal digits of a number, and zero padding on the left, for \<^verbatim>\<open>strftime\<close>.\<close>

definition digit_char :: "nat \<Rightarrow> char" where
  "digit_char d = ''0123456789'' ! d"

fun str_nat :: "nat \<Rightarrow> string" where
  "str_nat n =
     (if n < 10 then [digit_char n]
      else str_nat (n div 10) @ [digit_char (n mod 10)])"

declare str_nat.simps [simp del]

definition zfill :: "nat \<Rightarrow> string \<Rightarrow> string" where
  "zfill w s = replicate (w - length s) CHR ''0'' @ s"

text \<open>The day of the year, 1 to 366, from the calendar date.\<close>

definition day_of_year_of :: "datetime \<Rightarrow> nat" where
  "day_of_year_of dt = sum_list (map (days_in_month (year dt)) [1..<month dt]) + day dt"

text \<open>\<^verbatim>\<open>%Y\<close>, \<^verbatim>\<open>%j\<close> and \<^verbatim>\<open>%H\<close> (the year is printed unpadded, as for years from 1000 on).\<close>

definition strftime_Y :: "datetime \<Rightarrow> string" where
  "strftime_Y dt = str_nat (year dt)"

definition strftime_j :: "datetime \<Rightarrow> string" where
  "strftime_j dt = zfill 3 (str_nat (day_of_year_of dt))"

definition strftime_H :: "datetime \<Rightarrow> string" where
  "strftime_H dt = zfill 2 (str_nat (hour dt))"

definition hourly_prefix :: "datetime \<Rightarrow> string \<Rightarrow> string \<Rightarrow> string" where
  "hourly_prefix now product satellite =
     satellite @ ''/'' @ product @ ''/'' @ strftime_Y now @ ''/'' @ strftime_j now @ ''/''
       @ strftime_H now @ ''/''"

text \<open>
  \<^verbatim>\<open>get_latest_goes_file(product, satellite)\<close>. The archive listing \<^verbatim>\<open>fs.ls\<close> and the clock
  are inputs of the model: \<open>ls\<close> answers a prefix with the listed names or with the
  exception it raises, \<open>now\<close> is the current UTC instant. Everything inside the \<^verbatim>\<open>try\<close>
  block that raises, the \<^verbatim>\<open>ValueError\<close> for an empty listing included, ends in the handler
  that returns \<^verbatim>\<open>None\<close>; \<^verbatim>\<open>files[-1]\<close> is the last listed name.
\<close>

definition get_latest_goes_file ::
  "(string \<Rightarrow> error + string list) \<Rightarrow> datetime \<Rightarrow> string \<Rightarrow> string \<Rightarrow> string option" where
  "get_latest_goes_file ls now product satellite =
     (let prefix = hourly_prefix now product satellite in
      case ls prefix of
        Inl e \<Rightarrow> None
      | Inr files \<Rightarrow> if files = [] then None else Some (last files))"

definition default_product :: string where
  "default_product = ''ABI-L2-MCMIPC''"

definition default_satellite :: string where
  "default_satellite = ''noaa-goes19''"

subsection \<open>ingestion.py: the download\<close>

text \<open>
  The local file system is the set of paths that exist (the empty path names no file).
  Running a command is an input of the model: it answers with the exit status, or with
  the exception \<^verbatim>\<open>subprocess.run\<close> raises when the program cannot be started, and leaves
  the file system as the transfer left it.
\<close>

type_synonym filesystem = "string set"

type_synonym process_runner = "string list \<Rightarrow> filesystem \<Rightarrow> (error + int) \<times> filesystem"

text \<open>\<^verbatim>\<open>os.path.basename\<close>: what follows the last slash.\<close>

definition basename :: "string \<Rightarrow> string" where
  "basename p = rev (takeWhile (\<lambda>c. c \<noteq> CHR ''/'') (rev p))"

definition wget_command :: "string \<Rightarrow> string \<Rightarrow> string list" where
  "wget_command url output_path = [''wget'', ''-q'', url, ''-O'', output_path]"

text \<open>
  \<^verbatim>\<open>run_wget(url, output_path=None)\<close>: one run of the command; the path on exit status
  zero, \<^verbatim>\<open>None\<close> on any other status.
\<close>

definition run_wget ::
  "process_runner \<Rightarrow> string \<Rightarrow> string option \<Rightarrow> filesystem \<Rightarrow> (error + string option) \<times> filesystem" where
  "run_wget subprocess_run url output_path fs =
     (let out = (case output_path of None \<Rightarrow> basename url | Some p \<Rightarrow> p) in
      case subprocess_run (wget_command url out) fs of
        (Inl e, fs') \<Rightarrow> (Inl e, fs')
      | (Inr returncode, fs') \<Rightarrow> (Inr (if returncode = 0 then Some out else None), fs'))"

subsection \<open>main.py: the request handler\<close>

text \<open>\<^verbatim>\<open>os.remove\<close>: the path is gone afterwards; removing what is not there raises.\<close>

definition path_exists :: "string \<Rightarrow> filesystem \<Rightarrow> bool" where
  "path_exists p fs = (p \<noteq> [] \<and> p \<in> fs)"

definition os_remove :: "string \<Rightarrow> filesystem \<Rightarrow> (error + unit) \<times> filesystem" where
  "os_remove p fs =
     (if path_exists p fs then (Inr (), fs - {p}) else (Inl (FileNotFoundError p), fs))"

text \<open>\<^verbatim>\<open>s.split("/")[0]\<close> and \<^verbatim>\<open>s.split("/", 1)[1]\<close>; the second raises without a slash.\<close>

definition split_head :: "string \<Rightarrow> string" where
  "split_head s = takeWhile (\<lambda>c. c \<noteq> CHR ''/'') s"

definition split_rest :: "string \<Rightarrow> error + string" where
  "split_rest s =
     (case dropWhile (\<lambda>c. c \<noteq> CHR ''/'') s of [] \<Rightarrow> Inl IndexError | c # r \<Rightarrow> Inr r)"

text \<open>
  \<^verbatim>\<open>round(x, 2)\<close> on the real value, ties to the even neighbour; NaN and the infinities
  are returned as they are.
\<close>

definition round_half_even :: "real \<Rightarrow> int" where
  "round_half_even x =
     (let f = \<lfloor>x\<rfloor>; d = x - of_int f in
      if d < 1 / 2 then f else if 1 / 2 < d then f + 1 else if even f then f else f + 1)"

fun round2 :: "pyfloat \<Rightarrow> pyfloat" where
  "round2 (Fin x) = Fin (of_int (round_half_even (x * 100)) / 100)"
| "round2 x = x"

datatype response =
    ErrorPayload string
  | CloudCover pyfloat string

text \<open>What a request reads from outside: the archive, the clock, the transfer, the loader.\<close>

record environment =
  archive_ls :: "string \<Rightarrow> error + string list"
  utc_now :: datetime
  subprocess_run :: process_runner
  open_dataset :: "string \<Rightarrow> filesystem \<Rightarrow> error + dataset"
  iso_parser :: "string \<Rightarrow> error + datetime"

text \<open>The body of the \<^verbatim>\<open>try\<close> block: load, classify, build the payload.\<close>

definition classify_file :: "environment \<Rightarrow> string \<Rightarrow> string \<Rightarrow> filesystem \<Rightarrow> error + response" where
  "classify_file env local_file path fs =
     (case open_dataset env local_file fs of
        Inl e \<Rightarrow> Inl e
      | Inr ds \<Rightarrow>
          (case calc_cloud_fraction (iso_parser env) ds of
             Inl e \<Rightarrow> Inl e
           | Inr cloud_percent \<Rightarrow> Inr (CloudCover (round2 cloud_percent) path)))"

text \<open>
  \<^verbatim>\<open>try: ... finally: os.remove(local_file)\<close>: the removal runs whatever the body did; an
  exception of the removal replaces the body's outcome.
\<close>

definition try_finally_remove ::
  "error + response \<Rightarrow> string \<Rightarrow> filesystem \<Rightarrow> (error + response) \<times> filesystem" where
  "try_finally_remove body local_file fs =
     (case os_remove local_file fs of
        (Inl e, fs') \<Rightarrow> (Inl e, fs')
      | (Inr _, fs') \<Rightarrow> (body, fs'))"

text \<open>
  \<^verbatim>\<open>get_cloud_cover()\<close>. Each of the two \<^verbatim>\<open>if not ...\<close> tests takes its branch for
  \<^verbatim>\<open>None\<close> and for the empty string alike.
\<close>

definition get_cloud_cover :: "environment \<Rightarrow> filesystem \<Rightarrow> (error + response) \<times> filesystem" where
  "get_cloud_cover env fs =
     (case get_latest_goes_file (archive_ls env) (utc_now env) default_product default_satellite of
        None \<Rightarrow> (Inr (ErrorPayload ''No recent GOES files found''), fs)
      | Some latest \<Rightarrow>
          if latest = [] then (Inr (ErrorPayload ''No recent GOES files found''), fs)
          else
            (case split_rest latest of
               Inl e \<Rightarrow> (Inl e, fs)
             | Inr path \<Rightarrow>
                 (let satellite = split_head latest;
                      url = ''https://'' @ satellite @ ''.s3.amazonaws.com/'' @ path in
                  case run_wget (subprocess_run env) url None fs of
                    (Inl e, fs1) \<Rightarrow> (Inl e, fs1)
                  | (Inr None, fs1) \<Rightarrow> (Inr (ErrorPayload ''Failed to download GOES file''), fs1)
                  | (Inr (Some local_file), fs1) \<Rightarrow>
                      if local_file = [] then (Inr (ErrorPayload ''Failed to download GOES file''), fs1)
                      else try_finally_remove (classify_file env local_file path fs1) local_file fs1)))"

subsection \<open>Sample scans\<close>

text \<open>A scan from a list of named bands and a list of attributes.\<close>

definition scan_of :: "(string \<times> ndarray) list \<Rightarrow> (string \<times> string) list \<Rightarrow> dataset" where
  "scan_of bands meta = \<lparr>data_vars = map_of bands, attrs = map_of meta\<rparr>"

text \<open>A clock reading, an archive with two objects under the prefix of that hour.\<close>

definition sample_now :: datetime where
  "sample_now = \<lparr>year = 2025, month = 3, day = 21, hour = 12, minute = 34, second = 56,
                  microsecond = 0, utcoffset = Some 0\<rparr>"

definition sample_archive :: "string \<Rightarrow> error + string list" where
  "sample_archive prefix =
     (if prefix = ''noaa-goes19/ABI-L2-MCMIPC/2025/080/12/''
      then Inr [''noaa-goes19/ABI-L2-MCMIPC/2025/080/12/OR_s1201.nc'',
                ''noaa-goes19/ABI-L2-MCMIPC/2025/080/12/OR_s1206.nc'']
      else Inr [])"

text \<open>
  A transfer that ends with the given exit status and, as \<^verbatim>\<open>wget -O\<close> does, has created
  the output file either way; a loader that needs the file to exist.
\<close>

definition wget_exits :: "int \<Rightarrow> process_runner" where
  "wget_exits status command fs = (Inr status, insert (last command) fs)"

definition sample_loader :: "dataset \<Rightarrow> string \<Rightarrow> filesystem \<Rightarrow> error + dataset" where
  "sample_loader ds p fs = (if path_exists p fs then Inr ds else Inl (FileNotFoundError p))"

definition sample_env ::
  "int \<Rightarrow> (string \<Rightarrow> filesystem \<Rightarrow> error + dataset) \<Rightarrow> environment" where
  "sample_env status loader =
     \<lparr>archive_ls = sample_archive, utc_now = sample_now, subprocess_run = wget_exits status,
      open_dataset = loader, iso_parser = fromisoformat\<rparr>"

definition sample_scan :: dataset where
  "sample_scan =
     scan_of [(''CMI_C13'', [Fin 290, Fin 270]), (''CMI_C02'', [Fin (1 / 10), Fin (1 / 2)])]
             [(''time_coverage_start'', ''2025-03-21T12:01:17Z'')]"

section \<open>Properties\<close>

subsection \<open>Counting and comparing\<close>

lemma np_sum_map: "np_sum (map P xs) = length (filter P xs)"
  by (induction xs) (simp_all add: np_sum_def)

lemma flt_Fin_iff:
  "flt x (Fin t) = (case x of Fin v \<Rightarrow> v < t | NegInf \<Rightarrow> True | _ \<Rightarrow> False)"
  by (cases x) simp_all

lemma flt_not_nan: "flt x t \<Longrightarrow> \<not> isnan x"
  by (cases x) simp_all

lemma isnan_iff: "isnan x = (x = NaN)"
  by (cases x) simp_all

lemma cloudy_le_valid:
  "length (filter (\<lambda>x. flt x t) xs) \<le> length (filter (\<lambda>x. \<not> isnan x) xs)"
  by (induction xs) (auto dest: flt_not_nan)

subsection \<open>The night path\<close>

text \<open>
  Claim C1. For every scan that contains the band, \<open>calc_cloud_fraction_ir\<close> with threshold
  280 returns \<open>100 * cloudy_count / valid_count\<close>, where a pixel is cloudy iff its value is
  strictly below 280 (minus infinity is, NaN and plus infinity are not) and \<open>valid_count\<close>
  counts the pixels that are not NaN; for the band \<open>[270, 290, NaN, 275]\<close> that is
  \<open>200 / 3\<close>; and when no pixel is valid, in particular for an all-NaN band, the result is
  NaN: a value, not an error and not 0. Arithmetic is exact (reals), not rounded.
\<close>

theorem classify_ir_percentage:
  assumes "data_vars ds band = Some data"
  shows "calc_cloud_fraction_ir ds band (Fin 280) =
           Inr (if length (filter (\<lambda>x. x \<noteq> NaN) data) = 0 then NaN
                else Fin (100 * real (length (filter
                            (\<lambda>x. case x of Fin v \<Rightarrow> v < 280 | NegInf \<Rightarrow> True | _ \<Rightarrow> False) data))
                          / real (length (filter (\<lambda>x. x \<noteq> NaN) data))))
         \<and> (data = [Fin 270, Fin 290, NaN, Fin 275] \<longrightarrow>
              calc_cloud_fraction_ir ds band (Fin 280) = Inr (Fin (200 / 3)))
         \<and> ((\<forall>x\<in>set data. x = NaN) \<longrightarrow> calc_cloud_fraction_ir ds band (Fin 280) = Inr NaN)"
proof -
  have eq: "calc_cloud_fraction_ir ds band (Fin 280) =
           Inr (if length (filter (\<lambda>x. x \<noteq> NaN) data) = 0 then NaN
                else Fin (100 * real (length (filter
                            (\<lambda>x. case x of Fin v \<Rightarrow> v < 280 | NegInf \<Rightarrow> True | _ \<Rightarrow> False) data))
                          / real (length (filter (\<lambda>x. x \<noteq> NaN) data))))"
    using assms
    by (simp add: calc_cloud_fraction_ir_def percentage_def np_sum_map flt_Fin_iff isnan_iff
             del: length_0_conv)
  have ex: "data = [Fin 270, Fin 290, NaN, Fin 275] \<longrightarrow>
              calc_cloud_fraction_ir ds band (Fin 280) = Inr (Fin (200 / 3))"
    unfolding eq by simp
  have nan: "(\<forall>x\<in>set data. x = NaN) \<longrightarrow> calc_cloud_fraction_ir ds band (Fin 280) = Inr NaN"
    unfolding eq by (simp add: filter_empty_conv)
  from eq ex nan show ?thesis by blast
qed

theorem classify_ir_percentage_witness:
  "data_vars (scan_of [(''CMI_C13'', [Fin 270, Fin 290, NaN, Fin 275])] []) ''CMI_C13''
     = Some [Fin 270, Fin 290, NaN, Fin 275]
   \<and> calc_cloud_fraction_ir (scan_of [(''CMI_C13'', [Fin 270, Fin 290, NaN, Fin 275])] [])
        ''CMI_C13'' (Fin 280) = Inr (Fin (200 / 3))
   \<and> data_vars (scan_of [(''CMI_C13'', [NaN, NaN])] []) ''CMI_C13'' = Some [NaN, NaN]
   \<and> calc_cloud_fraction_ir (scan_of [(''CMI_C13'', [NaN, NaN])] []) ''CMI_C13'' (Fin 280)
        = Inr NaN"
proof -
  have a: "data_vars (scan_of [(''CMI_C13'', [Fin 270, Fin 290, NaN, Fin 275])] []) ''CMI_C13''
             = Some [Fin 270, Fin 290, NaN, Fin 275]"
    by (simp add: scan_of_def)
  have b: "data_vars (scan_of [(''CMI_C13'', [NaN, NaN])] []) ''CMI_C13'' = Some [NaN, NaN]"
    by (simp add: scan_of_def)
  show ?thesis
    using a b classify_ir_percentage [OF a] classify_ir_percentage [OF b] by simp
qed

text \<open>
  Claim C10. In \<open>calc_cloud_fraction_ir\<close> a NaN pixel is never counted as cloudy, since the
  comparison with the threshold is false for NaN; so the cloudy count is at most the valid
  count, and for every band with at least one pixel that is not NaN the result is a
  number between 0 and 100. This holds for every threshold.
\<close>

theorem ir_nan_never_cloudy:
  "\<not> flt NaN threshold
   \<and> np_sum (map (\<lambda>x. flt x threshold) data) \<le> np_sum (map (\<lambda>x. \<not> isnan x) data)
   \<and> (data_vars ds band = Some data \<and> (\<exists>x\<in>set data. \<not> isnan x) \<longrightarrow>
        (\<exists>p. calc_cloud_fraction_ir ds band threshold = Inr (Fin p) \<and> 0 \<le> p \<and> p \<le> 100))"
proof -
  let ?c = "length (filter (\<lambda>x. flt x threshold) data)"
  let ?v = "length (filter (\<lambda>x. \<not> isnan x) data)"
  have le: "?c \<le> ?v" by (rule cloudy_le_valid)
  have range: "\<exists>p. calc_cloud_fraction_ir ds band threshold = Inr (Fin p) \<and> 0 \<le> p \<and> p \<le> 100"
    if d: "data_vars ds band = Some data" and v: "\<exists>x\<in>set data. \<not> isnan x"
  proof -
    from v have pos: "0 < ?v" by (simp add: length_greater_0_conv filter_empty_conv)
    have val: "calc_cloud_fraction_ir ds band threshold = Inr (Fin (real ?c / real ?v * 100))"
      using d pos by (simp add: calc_cloud_fraction_ir_def percentage_def np_sum_map)
    from le pos have "real ?c / real ?v \<le> 1" by (simp add: divide_le_eq_1)
    then have "real ?c / real ?v * 100 \<le> 1 * 100" by (intro mult_right_mono) simp_all
    then have "real ?c / real ?v * 100 \<le> 100" by (simp del: times_divide_eq_left)
    moreover have "0 \<le> real ?c / real ?v * 100" by simp
    ultimately show ?thesis using val by blast
  qed
  show ?thesis using le range by (simp add: np_sum_map)
qed

theorem ir_nan_never_cloudy_witness:
  "data_vars (scan_of [(''CMI_C13'', [NaN, Fin 250, Fin 300])] []) ''CMI_C13''
     = Some [NaN, Fin 250, Fin 300]
   \<and> \<not> isnan (Fin 250)
   \<and> (\<exists>p. calc_cloud_fraction_ir (scan_of [(''CMI_C13'', [NaN, Fin 250, Fin 300])] [])
             ''CMI_C13'' (Fin 280) = Inr (Fin p) \<and> 0 \<le> p \<and> p \<le> 100)"
proof -
  have a: "data_vars (scan_of [(''CMI_C13'', [NaN, Fin 250, Fin 300])] []) ''CMI_C13''
             = Some [NaN, Fin 250, Fin 300]"
    by (simp add: scan_of_def)
  have b: "\<exists>x\<in>set [NaN, Fin 250, Fin 300]. \<not> isnan x" by simp
  show ?thesis
    using a b ir_nan_never_cloudy
      [of "Fin 280" "[NaN, Fin 250, Fin 300]"
          "scan_of [(''CMI_C13'', [NaN, Fin 250, Fin 300])] []" "''CMI_C13''"]
    by simp
qed

subsection \<open>The day path\<close>

lemma vis_masks_of_absent:
  "\<forall>vb\<in>set vis_bands. data_vars ds vb = None \<Longrightarrow> vis_masks_of ds vis_bands vt = []"
  by (induction vis_bands) simp_all

lemma logical_or_all_False: "logical_or m (replicate (length m) False) = Inr m"
  by (simp add: logical_or_def map_zip_map2 list_eq_iff_nth_eq)

lemma logical_or_reduce_spec:
  assumes "\<forall>m\<in>set ms. length m = length acc"
  shows "\<exists>r. logical_or_reduce acc ms = Inr r \<and> length r = length acc
           \<and> (\<forall>i<length acc. r ! i = (acc ! i \<or> (\<exists>m\<in>set ms. m ! i)))"
  using assms
proof (induction ms arbitrary: acc)
  case Nil
  then show ?case by simp
next
  case (Cons m ms)
  let ?a = "map (\<lambda>(x, y). x \<or> y) (zip acc m)"
  from Cons.prems have lm: "length m = length acc" by simp
  then have step: "logical_or acc m = Inr ?a" by (simp add: logical_or_def)
  have la: "length ?a = length acc" using lm by simp
  from Cons.prems la have "\<forall>m'\<in>set ms. length m' = length ?a" by simp
  from Cons.IH [OF this] obtain r where r: "logical_or_reduce ?a ms = Inr r"
    "length r = length ?a" "\<forall>i<length ?a. r ! i = (?a ! i \<or> (\<exists>m\<in>set ms. m ! i))"
    by blast
  have "\<forall>i<length acc. r ! i = (acc ! i \<or> (\<exists>m'\<in>set (m # ms). m' ! i))"
    using r(3) la lm by auto
  then show ?case using r(1,2) la step by simp
qed

lemma set_vis_masks_of:
  "set (vis_masks_of ds vbs vt)
     = {map (\<lambda>x. fgt x vt) d | vb d. vb \<in> set vbs \<and> data_vars ds vb = Some d}"
  by (induction vbs) (auto split: option.splits)

lemma combined_mask_spec:
  assumes shape: "\<forall>vb\<in>set vis_bands. \<forall>d. data_vars ds vb = Some d \<longrightarrow> length d = length ir_data"
  shows "\<exists>combined. combined_mask ds ir_data vis_bands it vt = Inr combined
           \<and> length combined = length ir_data
           \<and> (\<forall>i<length ir_data. combined ! i =
                 (flt (ir_data ! i) it
                  \<or> (\<exists>vb\<in>set vis_bands. \<exists>d. data_vars ds vb = Some d \<and> fgt (d ! i) vt)))"
proof -
  let ?ir = "map (\<lambda>x. flt x it) ir_data"
  let ?vms = "vis_masks_of ds vis_bands vt"
  have lens: "\<forall>m\<in>set ?vms. length m = length ir_data"
    using shape by (auto simp: set_vis_masks_of)
  have ex_iff: "(\<exists>m\<in>set ?vms. m ! i) =
                (\<exists>vb\<in>set vis_bands. \<exists>d. data_vars ds vb = Some d \<and> fgt (d ! i) vt)"
    if i: "i < length ir_data" for i
  proof
    assume "\<exists>m\<in>set ?vms. m ! i"
    then obtain vb d where vb: "vb \<in> set vis_bands" "data_vars ds vb = Some d"
      and mi: "map (\<lambda>x. fgt x vt) d ! i"
      by (auto simp: set_vis_masks_of)
    from shape vb have "length d = length ir_data" by blast
    with i mi have "fgt (d ! i) vt" by simp
    with vb show "\<exists>vb\<in>set vis_bands. \<exists>d. data_vars ds vb = Some d \<and> fgt (d ! i) vt"
      by blast
  next
    assume "\<exists>vb\<in>set vis_bands. \<exists>d. data_vars ds vb = Some d \<and> fgt (d ! i) vt"
    then obtain vb d where vb: "vb \<in> set vis_bands" "data_vars ds vb = Some d"
      and g: "fgt (d ! i) vt"
      by blast
    from shape vb have "length d = length ir_data" by blast
    with i g have "map (\<lambda>x. fgt x vt) d ! i" by simp
    moreover from vb have "map (\<lambda>x. fgt x vt) d \<in> set ?vms"
      by (auto simp: set_vis_masks_of)
    ultimately show "\<exists>m\<in>set ?vms. m ! i" by blast
  qed
  have vis: "\<exists>v. (case ?vms of [] \<Rightarrow> Inr (replicate (length ?ir) False)
                    | m # ms \<Rightarrow> logical_or_reduce m ms) = Inr v
               \<and> length v = length ir_data
               \<and> (\<forall>i<length ir_data. v ! i = (\<exists>m\<in>set ?vms. m ! i))"
  proof (cases ?vms)
    case Nil
    then show ?thesis by simp
  next
    case (Cons m ms)
    with lens have lm: "length m = length ir_data" and "\<forall>m'\<in>set ms. length m' = length m"
      by simp_all
    from logical_or_reduce_spec [OF this(2)] lm Cons show ?thesis by auto
  qed
  then obtain v where v: "(case ?vms of [] \<Rightarrow> Inr (replicate (length ?ir) False)
                    | m # ms \<Rightarrow> logical_or_reduce m ms) = Inr v"
      "length v = length ir_data" "\<forall>i<length ir_data. v ! i = (\<exists>m\<in>set ?vms. m ! i)"
    by blast
  let ?c = "map (\<lambda>(x, y). x \<or> y) (zip ?ir v)"
  have c: "combined_mask ds ir_data vis_bands it vt = Inr ?c"
    using v(1,2) by (simp add: combined_mask_def logical_or_def)
  have "\<forall>i<length ir_data. ?c ! i =
          (flt (ir_data ! i) it
           \<or> (\<exists>vb\<in>set vis_bands. \<exists>d. data_vars ds vb = Some d \<and> fgt (d ! i) vt))"
    using v(2,3) ex_iff by simp
  moreover have "length ?c = length ir_data" using v(2) by simp
  ultimately show ?thesis using c by blast
qed

text \<open>
  Claim C2. In \<open>calc_cloud_fraction_multiband\<close>, for a scan whose configured visible bands,
  where present, have the shape of the IR band, the combined mask exists, has that shape,
  and marks a pixel cloudy iff its IR value is strictly below the IR threshold or some
  configured visible band that is present in the scan exceeds the visible threshold at
  that pixel; the result is the percentage of that mask over the valid IR pixels. With IR
  \<open>[290, 270]\<close> (threshold 280) and the one visible band \<open>[0.1, 0.5]\<close> (threshold 0.3) the
  mask is \<open>[False, True]\<close> and the result is 50.
\<close>

theorem multiband_mask_rule:
  assumes ir: "data_vars ds ir_band = Some ir_data"
    and shape: "\<forall>vb\<in>set vis_bands. \<forall>d. data_vars ds vb = Some d \<longrightarrow> length d = length ir_data"
  shows "(\<exists>combined. combined_mask ds ir_data vis_bands ir_threshold vis_threshold = Inr combined
           \<and> length combined = length ir_data
           \<and> (\<forall>i<length ir_data. combined ! i =
                 (flt (ir_data ! i) ir_threshold
                  \<or> (\<exists>vb\<in>set vis_bands. \<exists>d. data_vars ds vb = Some d
                        \<and> fgt (d ! i) vis_threshold)))
           \<and> calc_cloud_fraction_multiband ds ir_band vis_bands ir_threshold vis_threshold
               = Inr (percentage (np_sum combined) (np_sum (map (\<lambda>x. \<not> isnan x) ir_data))))
       \<and> combined_mask
           (scan_of [(''CMI_C13'', [Fin 290, Fin 270]), (''CMI_C02'', [Fin (1 / 10), Fin (1 / 2)])] [])
           [Fin 290, Fin 270] [''CMI_C02'', ''CMI_C03''] (Fin 280) (Fin (3 / 10)) = Inr [False, True]
       \<and> calc_cloud_fraction_multiband
           (scan_of [(''CMI_C13'', [Fin 290, Fin 270]), (''CMI_C02'', [Fin (1 / 10), Fin (1 / 2)])] [])
           ''CMI_C13'' [''CMI_C02'', ''CMI_C03''] (Fin 280) (Fin (3 / 10)) = Inr (Fin 50)"
proof -
  from combined_mask_spec [OF shape, of ir_threshold vis_threshold]
  obtain combined where c:
    "combined_mask ds ir_data vis_bands ir_threshold vis_threshold = Inr combined"
    "length combined = length ir_data"
    "\<forall>i<length ir_data. combined ! i =
        (flt (ir_data ! i) ir_threshold
         \<or> (\<exists>vb\<in>set vis_bands. \<exists>d. data_vars ds vb = Some d \<and> fgt (d ! i) vis_threshold))"
    by blast
  have r: "calc_cloud_fraction_multiband ds ir_band vis_bands ir_threshold vis_threshold
             = Inr (percentage (np_sum combined) (np_sum (map (\<lambda>x. \<not> isnan x) ir_data)))"
    using ir c(1) by (simp add: calc_cloud_fraction_multiband_def)
  have m: "combined_mask
           (scan_of [(''CMI_C13'', [Fin 290, Fin 270]), (''CMI_C02'', [Fin (1 / 10), Fin (1 / 2)])] [])
           [Fin 290, Fin 270] [''CMI_C02'', ''CMI_C03''] (Fin 280) (Fin (3 / 10)) = Inr [False, True]"
    by (simp add: combined_mask_def scan_of_def logical_or_def fgt_def)
  have p: "calc_cloud_fraction_multiband
           (scan_of [(''CMI_C13'', [Fin 290, Fin 270]), (''CMI_C02'', [Fin (1 / 10), Fin (1 / 2)])] [])
           ''CMI_C13'' [''CMI_C02'', ''CMI_C03''] (Fin 280) (Fin (3 / 10)) = Inr (Fin 50)"
    by (simp add: calc_cloud_fraction_multiband_def combined_mask_def scan_of_def logical_or_def
          fgt_def percentage_def np_sum_def)
  from c r m p show ?thesis by blast
qed

theorem multiband_mask_rule_witness:
  "data_vars (scan_of [(''CMI_C13'', [Fin 290, Fin 270]),
                       (''CMI_C02'', [Fin (1 / 10), Fin (1 / 2)])] []) ''CMI_C13''
     = Some [Fin 290, Fin 270]
   \<and> (\<exists>combined.
         combined_mask (scan_of [(''CMI_C13'', [Fin 290, Fin 270]),
                                 (''CMI_C02'', [Fin (1 / 10), Fin (1 / 2)])] [])
           [Fin 290, Fin 270] [''CMI_C02'', ''CMI_C03''] (Fin 280) (Fin (3 / 10)) = Inr combined
         \<and> length combined = 2)"
proof -
  let ?ds = "scan_of [(''CMI_C13'', [Fin 290, Fin 270]),
                      (''CMI_C02'', [Fin (1 / 10), Fin (1 / 2)])] []"
  have a: "data_vars ?ds ''CMI_C13'' = Some [Fin 290, Fin 270]"
    by (simp add: scan_of_def)
  have b: "\<forall>vb\<in>set [''CMI_C02'', ''CMI_C03'']. \<forall>d. data_vars ?ds vb = Some d
             \<longrightarrow> length d = length [Fin 290, Fin 270]"
    by (auto simp: scan_of_def)
  from multiband_mask_rule [OF a b, of "Fin 280" "Fin (3 / 10)"] a show ?thesis
    by auto
qed

text \<open>
  Claim C7. For every scan in which none of the configured visible bands is present,
  \<open>calc_cloud_fraction_multiband\<close> returns what \<open>calc_cloud_fraction_ir\<close> returns for the same
  IR band and IR threshold (the same number, NaN or \<open>KeyError\<close>).
\<close>

theorem multiband_without_visible_is_ir:
  assumes "\<forall>vb\<in>set vis_bands. data_vars ds vb = None"
  shows "calc_cloud_fraction_multiband ds ir_band vis_bands ir_threshold vis_threshold
           = calc_cloud_fraction_ir ds ir_band ir_threshold"
  using assms
  by (simp add: calc_cloud_fraction_multiband_def calc_cloud_fraction_ir_def combined_mask_def
        vis_masks_of_absent logical_or_all_False Let_def split: option.splits)

theorem multiband_without_visible_is_ir_witness:
  "data_vars (scan_of [(''CMI_C13'', [Fin 270, Fin 290, NaN, Fin 275])] []) ''CMI_C02'' = None
   \<and> data_vars (scan_of [(''CMI_C13'', [Fin 270, Fin 290, NaN, Fin 275])] []) ''CMI_C03'' = None
   \<and> calc_cloud_fraction_multiband (scan_of [(''CMI_C13'', [Fin 270, Fin 290, NaN, Fin 275])] [])
        ''CMI_C13'' [''CMI_C02'', ''CMI_C03''] (Fin 280) (Fin (3 / 10))
      = calc_cloud_fraction_ir (scan_of [(''CMI_C13'', [Fin 270, Fin 290, NaN, Fin 275])] [])
          ''CMI_C13'' (Fin 280)"
proof -
  let ?ds = "scan_of [(''CMI_C13'', [Fin 270, Fin 290, NaN, Fin 275])] []"
  have a: "\<forall>vb\<in>set [''CMI_C02'', ''CMI_C03'']. data_vars ?ds vb = None"
    by (simp add: scan_of_def)
  from multiband_without_visible_is_ir [OF a, of "''CMI_C13''" "Fin 280" "Fin (3 / 10)"] a
  show ?thesis by simp
qed

text \<open>
  Claim C9. For every scan without the band \<open>CMI_C13\<close>, both classifiers answer with
  \<open>KeyError\<close> instead of a result, and so does \<open>calc_cloud_fraction\<close> on the day and on the
  night path (whenever the day/night decision itself returns). The visible bands are not
  mandatory: a scan with the IR band and none of the visible bands gets a result.
\<close>

theorem ir_band_mandatory:
  assumes "data_vars ds ''CMI_C13'' = None"
  shows "calc_cloud_fraction_ir ds ''CMI_C13'' threshold = Inl (KeyError ''CMI_C13'')
       \<and> calc_cloud_fraction_multiband ds ''CMI_C13'' vis_bands ir_threshold vis_threshold
           = Inl (KeyError ''CMI_C13'')
       \<and> (is_daytime parse ds = Inr daytime \<longrightarrow>
            calc_cloud_fraction parse ds = Inl (KeyError ''CMI_C13''))
       \<and> (data_vars ds' ''CMI_C13'' = Some d \<and> (\<forall>vb\<in>set vis_bands. data_vars ds' vb = None) \<longrightarrow>
            (\<exists>p. calc_cloud_fraction_multiband ds' ''CMI_C13'' vis_bands ir_threshold vis_threshold
                    = Inr p))"
proof -
  have absent: "calc_cloud_fraction_ir ds ''CMI_C13'' threshold = Inl (KeyError ''CMI_C13'')
       \<and> calc_cloud_fraction_multiband ds ''CMI_C13'' vis_bands ir_threshold vis_threshold
           = Inl (KeyError ''CMI_C13'')
       \<and> (is_daytime parse ds = Inr daytime \<longrightarrow>
            calc_cloud_fraction parse ds = Inl (KeyError ''CMI_C13''))"
    using assms
    by (simp add: calc_cloud_fraction_ir_def calc_cloud_fraction_multiband_def
          calc_cloud_fraction_def default_ir_band_def)
  have optional: "\<exists>p. calc_cloud_fraction_multiband ds' ''CMI_C13'' vis_bands ir_threshold
                         vis_threshold = Inr p"
    if "data_vars ds' ''CMI_C13'' = Some d" "\<forall>vb\<in>set vis_bands. data_vars ds' vb = None"
    using that
    by (simp add: calc_cloud_fraction_multiband_def combined_mask_def vis_masks_of_absent
          logical_or_all_False)
  from absent optional show ?thesis by blast
qed

theorem ir_band_mandatory_witness:
  "data_vars (scan_of [(''CMI_C02'', [Fin (1 / 2)])] []) ''CMI_C13'' = None
   \<and> is_daytime fromisoformat (scan_of [(''CMI_C02'', [Fin (1 / 2)])] []) = Inr True
   \<and> calc_cloud_fraction fromisoformat (scan_of [(''CMI_C02'', [Fin (1 / 2)])] [])
       = Inl (KeyError ''CMI_C13'')
   \<and> calc_cloud_fraction_ir (scan_of [(''CMI_C02'', [Fin (1 / 2)])] []) ''CMI_C13'' (Fin 280)
       = Inl (KeyError ''CMI_C13'')"
proof -
  let ?ds = "scan_of [(''CMI_C02'', [Fin (1 / 2)])] []"
  have a: "data_vars ?ds ''CMI_C13'' = None" by (simp add: scan_of_def)
  have b: "is_daytime fromisoformat ?ds = Inr True" by (simp add: is_daytime_def scan_of_def)
  from ir_band_mandatory [OF a, of "Fin 280" "[]" "Fin 280" "Fin 0" fromisoformat True] a b
  show ?thesis by simp
qed

lemma percentage_nonneg: "percentage c t = NaN \<or> (\<exists>p. percentage c t = Fin p \<and> 0 \<le> p)"
  by (simp add: percentage_def)

lemma percentage_in_range:
  assumes "c \<le> t" and "0 < t"
  shows "\<exists>p. percentage c t = Fin p \<and> 0 \<le> p \<and> p \<le> 100"
proof -
  from assms have "real c / real t \<le> 1" by (simp add: divide_le_eq_1)
  then have "real c / real t * 100 \<le> 1 * 100" by (intro mult_right_mono) simp_all
  then have "real c / real t * 100 \<le> 100" by (simp del: times_divide_eq_left)
  moreover have "0 \<le> real c / real t * 100" by simp
  ultimately show ?thesis using assms(2) by (simp add: percentage_def del: times_divide_eq_left)
qed

lemma day_path_in_range_when_ir_valid:
  assumes ir: "data_vars ds ir_band = Some ir_data"
    and shape: "\<forall>vb\<in>set vis_bands. \<forall>d. data_vars ds vb = Some d \<longrightarrow> length d = length ir_data"
    and valid: "\<forall>x\<in>set ir_data. \<not> isnan x" and ne: "ir_data \<noteq> []"
  shows "\<exists>p. calc_cloud_fraction_multiband ds ir_band vis_bands ir_threshold vis_threshold
               = Inr (Fin p) \<and> 0 \<le> p \<and> p \<le> 100"
proof -
  from combined_mask_spec [OF shape, of ir_threshold vis_threshold]
  obtain combined where c:
    "combined_mask ds ir_data vis_bands ir_threshold vis_threshold = Inr combined"
    "length combined = length ir_data"
    by blast
  have total: "np_sum (map (\<lambda>x. \<not> isnan x) ir_data) = length ir_data"
    using valid by (simp add: np_sum_map)
  have "np_sum combined \<le> length ir_data"
    using c(2) by (simp add: np_sum_def) (metis length_filter_le)
  moreover have "0 < length ir_data" using ne by simp
  ultimately obtain p where
    "percentage (np_sum combined) (length ir_data) = Fin p" "0 \<le> p" "p \<le> 100"
    using percentage_in_range by blast
  then show ?thesis
    using ir c(1) total by (simp add: calc_cloud_fraction_multiband_def)
qed

text \<open>
  Claim C3 says that the percentage returned by \<open>calc_cloud_fraction\<close> is NaN or lies in
  \<open>[0, 100]\<close> on both paths. On the night path it does (\<open>cloudy_le_valid\<close>). On the
  day path it does when no IR pixel is NaN (\<open>day_path_in_range_when_ir_valid\<close>), but the
  numerator counts every pixel of the combined mask while the denominator counts only the
  pixels whose IR value is not NaN: a pixel that is NaN in the IR band and bright in a
  visible band is counted as cloudy but not as valid. For the daytime scan with IR
  \<open>[NaN, 270]\<close> and visible band \<open>[0.5, 0.1]\<close> the result is 200.
\<close>

theorem day_path_percent_above_100:
  "calc_cloud_fraction fromisoformat
     (scan_of [(''CMI_C13'', [NaN, Fin 270]), (''CMI_C02'', [Fin (1 / 2), Fin (1 / 10)])]
              [(''time_coverage_start'', ''2025-03-21T12:00:00Z'')]) = Inr (Fin 200)"
  by (simp add: calc_cloud_fraction_def is_daytime_def scan_of_def replace_char_def
        fromisoformat_def parse_iso_def check_def digits_val_def is_digit_def
        parse_fraction_def parse_offset_def days_in_month_def
        calc_cloud_fraction_multiband_def combined_mask_def logical_or_def fgt_def
        percentage_def np_sum_def default_ir_band_def default_vis_bands_def
        default_ir_threshold_def default_vis_threshold_def)

subsection \<open>Day or night\<close>

lemma is_daytime_absent:
  "attrs ds ''time_coverage_start'' = None \<Longrightarrow> is_daytime parse ds = Inr True"
  by (simp add: is_daytime_def)

lemma is_daytime_hour:
  assumes "attrs ds ''time_coverage_start'' = Some t"
    and "parse (replace_char CHR ''Z'' ''+00:00'' t) = Inr dt"
  shows "is_daytime parse ds = Inr (6 \<le> hour dt \<and> hour dt \<le> 18)"
  using assms by (simp add: is_daytime_def)

lemma is_daytime_parse_error:
  assumes "attrs ds ''time_coverage_start'' = Some t"
    and "parse (replace_char CHR ''Z'' ''+00:00'' t) = Inl e"
  shows "is_daytime parse ds = Inl e"
  using assms by (simp add: is_daytime_def)

lemma utc_hour_no_offset:
  assumes "utcoffset dt = None \<or> utcoffset dt = Some 0" and "hour dt < 24" and "minute dt < 60"
  shows "utc_hour dt = hour dt"
proof -
  have "(int (hour dt) * 60 + int (minute dt)) div 60 = int (hour dt)"
    using assms(3) by simp
  then show ?thesis
    using assms(1,2) by (auto simp: utc_hour_def)
qed

lemma is_daytime_utc_when_no_offset:
  assumes "attrs ds ''time_coverage_start'' = Some t"
    and "parse (replace_char CHR ''Z'' ''+00:00'' t) = Inr dt"
    and "utcoffset dt = None \<or> utcoffset dt = Some 0" and "hour dt < 24" and "minute dt < 60"
  shows "is_daytime parse ds = Inr (6 \<le> utc_hour dt \<and> utc_hour dt \<le> 18)"
  using assms(1,2) utc_hour_no_offset [OF assms(3,4,5)] by (simp add: is_daytime_def)

lemma is_daytime_trailing_Z:
  "is_daytime fromisoformat (scan_of [] [(''time_coverage_start'', ''2025-03-21T18:59:59Z'')])
     = Inr True
   \<and> is_daytime fromisoformat (scan_of [] [(''time_coverage_start'', ''2025-03-21T19:00:00Z'')])
     = Inr False
   \<and> is_daytime fromisoformat (scan_of [] [(''time_coverage_start'', ''2025-03-21T06:00:00Z'')])
     = Inr True
   \<and> is_daytime fromisoformat (scan_of [] [(''time_coverage_start'', ''2025-03-21T05:59:59Z'')])
     = Inr False"
  by (simp add: is_daytime_def scan_of_def replace_char_def
        fromisoformat_def parse_iso_def check_def digits_val_def is_digit_def
        parse_fraction_def parse_offset_def days_in_month_def)

text \<open>
  Claim C4 says that \<open>is_daytime\<close> is true iff the UTC hour of the timestamp is in
  \<open>[6, 18]\<close>, and true when the attribute is absent. The default, the normalisation of
  \<open>Z\<close> and the inclusive bounds are as claimed (\<open>is_daytime_absent\<close>, \<open>is_daytime_hour\<close>,
  \<open>is_daytime_trailing_Z\<close>), and the tested hour is the UTC hour whenever the parsed
  timestamp has offset zero or none (\<open>is_daytime_utc_when_no_offset\<close>). The code tests the
  \<^verbatim>\<open>hour\<close> field as written, though, without converting to UTC: for the timestamp
  \<^verbatim>\<open>2025-03-21T05:00:00-05:00\<close>, which is 10:00 UTC, the answer is \<open>False\<close>.
\<close>

theorem is_daytime_ignores_offset:
  "is_daytime fromisoformat (scan_of [] [(''time_coverage_start'', ''2025-03-21T05:00:00-05:00'')])
     = Inr False
   \<and> map_sum id utc_hour (fromisoformat ''2025-03-21T05:00:00-05:00'') = Inr 10"
  by (simp add: is_daytime_def scan_of_def replace_char_def
        fromisoformat_def parse_iso_def check_def digits_val_def is_digit_def
        parse_fraction_def parse_offset_def days_in_month_def utc_hour_def)

subsection \<open>Discovery\<close>

lemma sample_prefix:
  "hourly_prefix sample_now default_product default_satellite
     = ''noaa-goes19/ABI-L2-MCMIPC/2025/080/12/''"
  by (simp add: hourly_prefix_def sample_now_def default_product_def default_satellite_def
      strftime_Y_def strftime_j_def strftime_H_def zfill_def str_nat.simps digit_char_def
      day_of_year_of_def days_in_month_def is_leap_def upt_conv_Cons)

lemma sorted_le_last:
  fixes xs :: "'a::linorder list"
  assumes "sorted xs" and "x \<in> set xs"
  shows "x \<le> last xs"
proof -
  from assms(2) obtain i where i: "i < length xs" "xs ! i = x"
    by (auto simp: in_set_conv_nth)
  then have ne: "xs \<noteq> []" by auto
  have "xs ! i \<le> xs ! (length xs - 1)"
    using assms(1) i(1) by (intro sorted_nth_mono) simp_all
  with i(2) ne show ?thesis by (simp add: last_conv_nth)
qed

text \<open>
  Claim C5. \<open>get_latest_goes_file\<close> returns \<open>None\<close>, a value and not an exception, when the
  listing under the hourly prefix is empty and when the listing raises. When the listing
  is not empty it returns the last listed entry, which is the lexicographically greatest
  one for a listing ordered by name, as the archive interface delivers it. The result
  depends on the archive only through the listing of the one computed prefix: no other
  hour is consulted.
\<close>

theorem find_latest_result:
  "(ls (hourly_prefix now product satellite) = Inr [] \<longrightarrow>
      get_latest_goes_file ls now product satellite = None)
   \<and> (ls (hourly_prefix now product satellite) = Inl e \<longrightarrow>
      get_latest_goes_file ls now product satellite = None)
   \<and> (ls (hourly_prefix now product satellite) = Inr files \<and> files \<noteq> [] \<longrightarrow>
        get_latest_goes_file ls now product satellite = Some (last files)
        \<and> last files \<in> set files
        \<and> (sorted files \<longrightarrow> (\<forall>f\<in>set files. f \<le> last files)))
   \<and> (ls' (hourly_prefix now product satellite) = ls (hourly_prefix now product satellite) \<longrightarrow>
        get_latest_goes_file ls' now product satellite
          = get_latest_goes_file ls now product satellite)"
  by (auto simp: get_latest_goes_file_def sorted_le_last)

theorem find_latest_result_witness:
  "get_latest_goes_file sample_archive sample_now default_product default_satellite
     = Some ''noaa-goes19/ABI-L2-MCMIPC/2025/080/12/OR_s1206.nc''
   \<and> get_latest_goes_file (\<lambda>p. Inr []) sample_now default_product default_satellite = None
   \<and> get_latest_goes_file (\<lambda>p. Inl (OSError ''unreachable'')) sample_now default_product
        default_satellite = None"
proof -
  let ?files = "[''noaa-goes19/ABI-L2-MCMIPC/2025/080/12/OR_s1201.nc'',
                 ''noaa-goes19/ABI-L2-MCMIPC/2025/080/12/OR_s1206.nc'']"
  have a: "sample_archive (hourly_prefix sample_now default_product default_satellite)
             = Inr ?files"
    by (simp add: sample_prefix sample_archive_def)
  have b: "?files \<noteq> []" by simp
  from find_latest_result
         [of sample_archive sample_now default_product default_satellite _ ?files] a b
  have 1: "get_latest_goes_file sample_archive sample_now default_product default_satellite
             = Some ''noaa-goes19/ABI-L2-MCMIPC/2025/080/12/OR_s1206.nc''"
    by simp
  from find_latest_result [of "\<lambda>p. Inr []" sample_now default_product default_satellite]
  have 2: "get_latest_goes_file (\<lambda>p. Inr []) sample_now default_product default_satellite = None"
    by simp
  from find_latest_result
         [of "\<lambda>p. Inl (OSError ''unreachable'')" sample_now default_product default_satellite
             "OSError ''unreachable''"]
  have 3: "get_latest_goes_file (\<lambda>p. Inl (OSError ''unreachable'')) sample_now default_product
             default_satellite = None"
    by simp
  from 1 2 3 show ?thesis by simp
qed

subsection \<open>Download\<close>

text \<open>
  Claim C6. When the transfer ends with an exit status, \<open>run_wget\<close> returns the output path
  (the basename of the URL unless a path was given) iff the status is zero and \<open>None\<close> on
  every other status; the file system afterwards is the one the single run of the command
  left, so nothing is run a second time.
\<close>

theorem run_wget_result:
  assumes "out = (case output_path of None \<Rightarrow> basename url | Some p \<Rightarrow> p)"
    and "run (wget_command url out) fs = (Inr returncode, fs')"
  shows "run_wget run url output_path fs
           = (Inr (if returncode = 0 then Some out else None), fs')
       \<and> (fst (run_wget run url output_path fs) = Inr (Some out)) = (returncode = 0)
       \<and> (returncode \<noteq> 0 \<longrightarrow> fst (run_wget run url output_path fs) = Inr None)"
  using assms by (simp add: run_wget_def)

theorem run_wget_result_witness:
  "run_wget (wget_exits 0) ''https://noaa-goes19.s3.amazonaws.com/ABI-L2-MCMIPC/2025/080/12/OR_s1206.nc''
      None {} = (Inr (Some ''OR_s1206.nc''), {''OR_s1206.nc''})
   \<and> run_wget (wget_exits 8) ''https://noaa-goes19.s3.amazonaws.com/ABI-L2-MCMIPC/2025/080/12/OR_s1206.nc''
      (Some ''scan.nc'') {} = (Inr None, {''scan.nc''})"
proof -
  let ?url = "''https://noaa-goes19.s3.amazonaws.com/ABI-L2-MCMIPC/2025/080/12/OR_s1206.nc''"
  have a: "''OR_s1206.nc'' = (case None of None \<Rightarrow> basename ?url | Some p \<Rightarrow> p)"
    by (simp add: basename_def)
  have b: "wget_exits 0 (wget_command ?url ''OR_s1206.nc'') {} = (Inr 0, {''OR_s1206.nc''})"
    by (simp add: wget_exits_def wget_command_def)
  have c: "''scan.nc'' = (case Some ''scan.nc'' of None \<Rightarrow> basename ?url | Some p \<Rightarrow> p)"
    by simp
  have d: "wget_exits 8 (wget_command ?url ''scan.nc'') {} = (Inr 8, {''scan.nc''})"
    by (simp add: wget_exits_def wget_command_def)
  from run_wget_result [where out = "''OR_s1206.nc''" and output_path = None and url = ?url
                          and run = "wget_exits 0" and fs = "{}", OF a b]
       run_wget_result [where out = "''scan.nc''" and output_path = "Some ''scan.nc''"
                          and url = ?url and run = "wget_exits 8" and fs = "{}", OF c d]
  show ?thesis by simp
qed

subsection \<open>The request handler\<close>

lemma try_finally_remove_gone:
  "\<not> path_exists local_file (snd (try_finally_remove body local_file fs))"
  by (simp add: try_finally_remove_def os_remove_def path_exists_def)

lemma try_finally_remove_frame:
  "snd (try_finally_remove body local_file fs) = (if local_file = [] then fs else fs - {local_file})"
  by (auto simp: try_finally_remove_def os_remove_def path_exists_def)

lemma try_finally_remove_outcome:
  "path_exists local_file fs \<Longrightarrow> fst (try_finally_remove body local_file fs) = body"
  by (simp add: try_finally_remove_def os_remove_def)

lemma sample_latest:
  "get_latest_goes_file (archive_ls (sample_env status loader)) (utc_now (sample_env status loader))
     default_product default_satellite
     = Some ''noaa-goes19/ABI-L2-MCMIPC/2025/080/12/OR_s1206.nc''"
  by (simp add: sample_env_def get_latest_goes_file_def sample_prefix sample_archive_def)

lemma sample_path:
  "split_rest ''noaa-goes19/ABI-L2-MCMIPC/2025/080/12/OR_s1206.nc''
     = Inr ''ABI-L2-MCMIPC/2025/080/12/OR_s1206.nc''"
  by (simp add: split_rest_def)

lemma sample_fetch:
  "run_wget (subprocess_run (sample_env 0 loader))
     (''https://'' @ split_head ''noaa-goes19/ABI-L2-MCMIPC/2025/080/12/OR_s1206.nc''
        @ ''.s3.amazonaws.com/'' @ ''ABI-L2-MCMIPC/2025/080/12/OR_s1206.nc'') None {''keep.txt''}
     = (Inr (Some ''OR_s1206.nc''), {''OR_s1206.nc'', ''keep.txt''})"
  by (simp add: sample_env_def run_wget_def wget_exits_def wget_command_def basename_def
        split_head_def Let_def)

lemma sample_classify:
  "classify_file (sample_env 0 (sample_loader sample_scan)) ''OR_s1206.nc''
     ''ABI-L2-MCMIPC/2025/080/12/OR_s1206.nc'' {''OR_s1206.nc'', ''keep.txt''}
     = Inr (CloudCover (Fin 50) ''ABI-L2-MCMIPC/2025/080/12/OR_s1206.nc'')"
  by (simp add: classify_file_def sample_env_def sample_loader_def path_exists_def
        sample_scan_def calc_cloud_fraction_def is_daytime_def scan_of_def replace_char_def
        fromisoformat_def parse_iso_def check_def digits_val_def is_digit_def
        parse_fraction_def parse_offset_def days_in_month_def
        calc_cloud_fraction_multiband_def combined_mask_def logical_or_def fgt_def
        percentage_def np_sum_def default_ir_band_def default_vis_bands_def
        default_ir_threshold_def default_vis_threshold_def round_half_even_def)

lemma sample_classify_no_ir:
  "classify_file (sample_env 0 (sample_loader (scan_of [] []))) ''OR_s1206.nc''
     ''ABI-L2-MCMIPC/2025/080/12/OR_s1206.nc'' {''OR_s1206.nc'', ''keep.txt''}
     = Inl (KeyError ''CMI_C13'')"
  by (simp add: classify_file_def sample_env_def sample_loader_def path_exists_def
        calc_cloud_fraction_def is_daytime_def scan_of_def
        calc_cloud_fraction_multiband_def default_ir_band_def)

lemma sample_classify_unreadable:
  "classify_file (sample_env 0 (\<lambda>p fs. Inl (OSError ''unreadable''))) ''OR_s1206.nc''
     ''ABI-L2-MCMIPC/2025/080/12/OR_s1206.nc'' {''OR_s1206.nc'', ''keep.txt''}
     = Inl (OSError ''unreadable'')"
  by (simp add: classify_file_def sample_env_def)

text \<open>
  When the fetch fails, the handler returns the error payload and removes nothing: what the
  transfer left at the output path stays.
\<close>

lemma fetch_failed_keeps_files:
  assumes "get_latest_goes_file (archive_ls env) (utc_now env) default_product
             default_satellite = Some latest"
    and "split_rest latest = Inr path"
    and "run_wget (subprocess_run env)
           (''https://'' @ split_head latest @ ''.s3.amazonaws.com/'' @ path) None fs
           = (Inr None, fs1)"
  shows "get_cloud_cover env fs = (Inr (ErrorPayload ''Failed to download GOES file''), fs1)"
proof -
  from assms(2) have "latest \<noteq> []" by (auto simp: split_rest_def)
  with assms show ?thesis by (simp add: get_cloud_cover_def)
qed

lemma failed_fetch_leaves_partial_file:
  "get_cloud_cover (sample_env 8 loader) {''keep.txt''}
     = (Inr (ErrorPayload ''Failed to download GOES file''), {''OR_s1206.nc'', ''keep.txt''})"
proof -
  have "run_wget (subprocess_run (sample_env 8 loader))
     (''https://'' @ split_head ''noaa-goes19/ABI-L2-MCMIPC/2025/080/12/OR_s1206.nc''
        @ ''.s3.amazonaws.com/'' @ ''ABI-L2-MCMIPC/2025/080/12/OR_s1206.nc'') None {''keep.txt''}
     = (Inr None, {''OR_s1206.nc'', ''keep.txt''})"
    by (simp add: sample_env_def run_wget_def wget_exits_def wget_command_def basename_def
          split_head_def Let_def)
  from fetch_failed_keeps_files [OF sample_latest sample_path this] show ?thesis .
qed

text \<open>
  Claim C8 says that on every exit path after a fetch was attempted the downloaded file no
  longer exists when \<open>get_cloud_cover\<close> completes. It fails on the exit taken when the
  fetch fails: the handler returns the error payload before the \<^verbatim>\<open>try\<close> block, so the
  removal never runs. For a transfer that ends with status 8 and has created its output
  file, a file that was not there before the call is there after it.
\<close>

theorem artifact_left_after_failed_fetch:
  "\<not> path_exists ''OR_s1206.nc'' {''keep.txt''}
   \<and> run_wget (subprocess_run (sample_env 8 (sample_loader sample_scan)))
        ''https://noaa-goes19.s3.amazonaws.com/ABI-L2-MCMIPC/2025/080/12/OR_s1206.nc'' None
        {''keep.txt''}
       = (Inr None, {''OR_s1206.nc'', ''keep.txt''})
   \<and> get_cloud_cover (sample_env 8 (sample_loader sample_scan)) {''keep.txt''}
       = (Inr (ErrorPayload ''Failed to download GOES file''), {''OR_s1206.nc'', ''keep.txt''})
   \<and> path_exists ''OR_s1206.nc''
         (snd (get_cloud_cover (sample_env 8 (sample_loader sample_scan)) {''keep.txt''}))"
proof -
  have absent: "\<not> path_exists ''OR_s1206.nc'' {''keep.txt''}"
    by (simp add: path_exists_def)
  have fetch: "run_wget (subprocess_run (sample_env 8 (sample_loader sample_scan)))
        ''https://noaa-goes19.s3.amazonaws.com/ABI-L2-MCMIPC/2025/080/12/OR_s1206.nc'' None
        {''keep.txt''}
       = (Inr None, {''OR_s1206.nc'', ''keep.txt''})"
    by (simp add: sample_env_def run_wget_def wget_exits_def wget_command_def basename_def
          Let_def)
  note call = failed_fetch_leaves_partial_file [of "sample_loader sample_scan"]
  have present: "path_exists ''OR_s1206.nc''
         (snd (get_cloud_cover (sample_env 8 (sample_loader sample_scan)) {''keep.txt''}))"
    unfolding call by (simp add: path_exists_def)
  from absent fetch call present show ?thesis by simp
qed

text \<open>
  Claim C8, amended. On every exit path after the fetch has returned a local path, the
  file of that path does not exist when \<open>get_cloud_cover\<close> completes, whatever the loader
  and the classifier do: the payload is returned, the classification fails, or an
  exception is raised. Nothing else is removed, and when the file was there the outcome
  of the call is the outcome of the \<^verbatim>\<open>try\<close> block.
\<close>

theorem artifact_removed_after_fetch:
  assumes latest: "get_latest_goes_file (archive_ls env) (utc_now env) default_product
                     default_satellite = Some latest"
    and path: "split_rest latest = Inr path"
    and fetch: "run_wget (subprocess_run env)
                  (''https://'' @ split_head latest @ ''.s3.amazonaws.com/'' @ path) None fs
                  = (Inr (Some local_file), fs1)"
  shows "\<not> path_exists local_file (snd (get_cloud_cover env fs))
       \<and> (local_file \<noteq> [] \<longrightarrow> snd (get_cloud_cover env fs) = fs1 - {local_file})
       \<and> (path_exists local_file fs1 \<longrightarrow>
            fst (get_cloud_cover env fs) = classify_file env local_file path fs1)"
proof -
  from path have ne: "latest \<noteq> []" by (auto simp: split_rest_def)
  show ?thesis
  proof (cases "local_file = []")
    case True
    then show ?thesis by (simp add: path_exists_def)
  next
    case False
    with latest path fetch ne have run:
      "get_cloud_cover env fs
         = try_finally_remove (classify_file env local_file path fs1) local_file fs1"
      by (simp add: get_cloud_cover_def)
    have gone: "\<not> path_exists local_file (snd (get_cloud_cover env fs))"
      unfolding run by (rule try_finally_remove_gone)
    have frame: "snd (get_cloud_cover env fs) = fs1 - {local_file}"
      unfolding run using False by (simp add: try_finally_remove_frame)
    have outcome: "fst (get_cloud_cover env fs) = classify_file env local_file path fs1"
      if "path_exists local_file fs1"
      unfolding run using that by (rule try_finally_remove_outcome)
    from gone frame outcome show ?thesis by blast
  qed
qed

theorem artifact_removed_after_fetch_witness:
  "get_cloud_cover (sample_env 0 (sample_loader sample_scan)) {''keep.txt''}
     = (Inr (CloudCover (Fin 50) ''ABI-L2-MCMIPC/2025/080/12/OR_s1206.nc''), {''keep.txt''})
   \<and> get_cloud_cover (sample_env 0 (sample_loader (scan_of [] []))) {''keep.txt''}
     = (Inl (KeyError ''CMI_C13''), {''keep.txt''})
   \<and> get_cloud_cover (sample_env 0 (\<lambda>p fs. Inl (OSError ''unreadable''))) {''keep.txt''}
     = (Inl (OSError ''unreadable''), {''keep.txt''})
   \<and> \<not> path_exists ''OR_s1206.nc''
         (snd (get_cloud_cover (sample_env 0 (sample_loader sample_scan)) {''keep.txt''}))"
proof -
  have ex: "path_exists ''OR_s1206.nc'' {''OR_s1206.nc'', ''keep.txt''}"
    by (simp add: path_exists_def)
  have fs: "{''OR_s1206.nc'', ''keep.txt''} - {''OR_s1206.nc''} = {''keep.txt''}"
    by auto
  note r = artifact_removed_after_fetch [OF sample_latest sample_path sample_fetch]
  have 1: "get_cloud_cover (sample_env 0 (sample_loader sample_scan)) {''keep.txt''}
     = (Inr (CloudCover (Fin 50) ''ABI-L2-MCMIPC/2025/080/12/OR_s1206.nc''), {''keep.txt''})"
    using r [of "sample_loader sample_scan"] ex fs sample_classify
    by (simp add: prod_eq_iff)
  have 2: "get_cloud_cover (sample_env 0 (sample_loader (scan_of [] []))) {''keep.txt''}
     = (Inl (KeyError ''CMI_C13''), {''keep.txt''})"
    using r [of "sample_loader (scan_of [] [])"] ex fs sample_classify_no_ir
    by (simp add: prod_eq_iff)
  have 3: "get_cloud_cover (sample_env 0 (\<lambda>p fs. Inl (OSError ''unreadable''))) {''keep.txt''}
     = (Inl (OSError ''unreadable''), {''keep.txt''})"
    using r [of "\<lambda>p fs. Inl (OSError ''unreadable'')"] ex fs sample_classify_unreadable
    by (simp add: prod_eq_iff)
  from 1 2 3 r [of "sample_loader sample_scan"] show ?thesis by simp
qed

end
